theory Spec2Isabelle
  imports Main "HOL-Library.Word"
begin

section \<open>Values, errors and durations\<close>

text \<open>
  A Go \<open>error\<close> is modelled by its message. Functions that only return errors have the
  result type \<open>string + 'a\<close> (\<open>Inl\<close> the message of the error). Handlers that can also
  panic (a nil dereference, a failed type assertion) return \<open>error + 'a\<close>.
\<close>

datatype error = Err string | Panic string

text \<open>The values of a \<open>map[string]interface{}\<close> that this code reads or writes.\<close>

datatype val = VString string | VBool bool | VInt int

text \<open>
  \<open>time.Duration\<close> is an \<open>int64\<close> count of nanoseconds, Go's \<open>int\<close> is taken as 64 bits;
  multiplication wraps around.
\<close>

type_synonym Duration = "64 word"

definition Second :: Duration where
  "Second = 1000000000"

text \<open>
  \<open>int(d.Seconds())\<close>. \<open>Seconds\<close> is \<open>float64(d / Second) + float64(d % Second) / 1e9\<close>
  with Go's truncating division; for a whole number of seconds that is exactly
  \<open>d / Second\<close>, and the conversion to \<open>int\<close> truncates towards zero. The fractional
  part, where the rounding of the float addition could matter, is truncated here.
\<close>

definition Seconds_int :: "Duration \<Rightarrow> int" where
  "Seconds_int d = sgn (sint d) * (\<bar>sint d\<bar> div 1000000000)"

section \<open>Data model\<close>

text \<open>\<open>proxmoxConfig\<close> of path_config.go.\<close>

record proxmoxConfig =
  User :: string
  Realm :: string
  ApiTokenID :: string
  ApiTokenSecret :: string
  ApiURL :: string
  SkipCertValidation :: bool
  HTTPHeaders :: string
  ProxyServer :: string
  TaskTimeout :: Duration

text \<open>\<open>new(proxmoxConfig)\<close>: every field has its zero value.\<close>

definition new_proxmoxConfig :: proxmoxConfig where
  "new_proxmoxConfig =
     \<lparr>User = [], Realm = [], ApiTokenID = [], ApiTokenSecret = [], ApiURL = [],
      SkipCertValidation = False, HTTPHeaders = [], ProxyServer = [], TaskTimeout = 0\<rparr>"

text \<open>
  \<open>proxmoxRoleEntry\<close> of the role path; its \<open>User\<close> and \<open>Realm\<close> are named
  \<open>RoleUser\<close> and \<open>RoleRealm\<close> here, apart from the fields of the configuration.
\<close>

record proxmoxRoleEntry =
  Name :: string
  RoleUser :: string
  RoleRealm :: string
  TTL :: Duration
  MaxTTL :: Duration

section \<open>Storage\<close>

text \<open>
  \<open>logical.Storage\<close> holds JSON documents under string keys. A document is the encoding of
  a configuration, the encoding of a role, or bytes that do not decode. Every operation of
  the storage can fail: the record carries, per operation, the error it returns if any.
\<close>

datatype json = ConfigJSON proxmoxConfig | RoleJSON proxmoxRoleEntry | Malformed

record Storage =
  kv :: "string \<rightharpoonup> json"
  get_err :: "string option"
  put_err :: "string option"
  delete_err :: "string option"

definition Storage_Get :: "Storage \<Rightarrow> string \<Rightarrow> string + json option" where
  "Storage_Get s key = (case get_err s of Some m \<Rightarrow> Inl m | None \<Rightarrow> Inr (kv s key))"

definition Storage_Put :: "Storage \<Rightarrow> string \<Rightarrow> json \<Rightarrow> string option \<times> Storage" where
  "Storage_Put s key v =
     (case put_err s of Some m \<Rightarrow> (Some m, s) | None \<Rightarrow> (None, s\<lparr>kv := (kv s)(key \<mapsto> v)\<rparr>))"

definition Storage_Delete :: "Storage \<Rightarrow> string \<Rightarrow> string option \<times> Storage" where
  "Storage_Delete s key =
     (case delete_err s of Some m \<Rightarrow> (Some m, s) | None \<Rightarrow> (None, s\<lparr>kv := (kv s)(key := None)\<rparr>))"

text \<open>
  \<open>entry.DecodeJSON\<close> into a \<open>proxmoxConfig\<close>: the keys of the document that the struct
  declares are taken, the others ignored (a role document shares \<open>user\<close> and \<open>realm\<close>).
\<close>

definition DecodeJSON_config :: "json \<Rightarrow> string + proxmoxConfig" where
  "DecodeJSON_config j =
     (case j of
        ConfigJSON c \<Rightarrow> Inr c
      | RoleJSON r \<Rightarrow> Inr (new_proxmoxConfig\<lparr>User := RoleUser r, Realm := RoleRealm r\<rparr>)
      | Malformed \<Rightarrow> Inl ''invalid character'')"

definition DecodeJSON_role :: "json \<Rightarrow> string + proxmoxRoleEntry" where
  "DecodeJSON_role j =
     (case j of
        RoleJSON r \<Rightarrow> Inr r
      | ConfigJSON c \<Rightarrow>
          Inr \<lparr>Name = [], RoleUser = User c, RoleRealm = Realm c, TTL = 0, MaxTTL = 0\<rparr>
      | Malformed \<Rightarrow> Inl ''invalid character'')"

definition configStoragePath :: string where
  "configStoragePath = ''config''"

section \<open>Requests and responses\<close>

datatype Operation =
  CreateOperation | ReadOperation | UpdateOperation | DeleteOperation | ListOperation
  | RevokeOperation | RenewOperation

text \<open>
  \<open>framework.FieldData\<close> as the handlers see it: field \<open>fd_k\<close> is what \<open>d.GetOk("k")\<close>
  returns, already of the type the schema declares for \<open>k\<close>; \<open>None\<close> when the request
  does not supply \<open>k\<close>.
\<close>

record FieldData =
  fd_name :: "string option"
  fd_user :: "string option"
  fd_realm :: "string option"
  fd_token_id :: "string option"
  fd_token_secret :: "string option"
  fd_proxmox_url :: "string option"
  fd_insecure_skip_tls_verify :: "bool option"
  fd_http_headers :: "string option"
  fd_proxy_server :: "string option"
  fd_timeout :: "64 word option"
  fd_ttl :: "64 word option"
  fd_max_ttl :: "64 word option"

text \<open>\<open>logical.Secret\<close> (lease options and internal data) and \<open>logical.Response\<close>.\<close>

record logical_Secret =
  InternalData :: "string \<rightharpoonup> val"
  Secret_TTL :: Duration
  Secret_MaxTTL :: Duration

record logical_Response =
  Data :: "string \<rightharpoonup> val"
  Secret :: "logical_Secret option"

text \<open>\<open>logical.ErrorResponse\<close>: a response whose only datum is the error text.\<close>

definition ErrorResponse :: "string \<Rightarrow> logical_Response" where
  "ErrorResponse text = \<lparr>Data = [''error'' \<mapsto> VString text], Secret = None\<rparr>"

section \<open>Configuration store (path_config.go)\<close>

definition getConfig :: "Storage \<Rightarrow> string + proxmoxConfig option" where
  "getConfig s =
     (case Storage_Get s configStoragePath of
        Inl err \<Rightarrow> Inl err
      | Inr None \<Rightarrow> Inr None
      | Inr (Some entry) \<Rightarrow>
          (case DecodeJSON_config entry of
             Inl err \<Rightarrow> Inl (''error reading root configration: '' @ err)
           | Inr config \<Rightarrow> Inr (Some config)))"

text \<open>
  \<open>pathConfigRead\<close> reads the fields of \<open>c\<close> without testing \<open>c\<close> against nil: when
  \<open>getConfig\<close> returns \<open>(nil, nil)\<close> the first field access dereferences nil and panics.
\<close>

definition pathConfigRead :: "Storage \<Rightarrow> error + logical_Response option" where
  "pathConfigRead s =
     (case getConfig s of
        Inl err \<Rightarrow> Inl (Err err)
      | Inr None \<Rightarrow> Inl (Panic ''invalid memory address or nil pointer dereference'')
      | Inr (Some c) \<Rightarrow>
          Inr (Some \<lparr>Data =
            [''user'' \<mapsto> VString (User c),
             ''realm'' \<mapsto> VString (Realm c),
             ''token_id'' \<mapsto> VString (ApiTokenID c),
             ''proxmox_url'' \<mapsto> VString (ApiURL c),
             ''insecure_skip_tls_verify'' \<mapsto> VBool (SkipCertValidation c),
             ''http_headers'' \<mapsto> VString (HTTPHeaders c),
             ''proxy_server'' \<mapsto> VString (ProxyServer c),
             ''timeout'' \<mapsto> VInt (Seconds_int (TaskTimeout c))],
           Secret = None\<rparr>))"

section \<open>The environment: the remote system, the clock, the generator of identifiers\<close>

text \<open>
  The handle of client.go wraps a \<open>pxapi.Client\<close>, an external type. The model keeps what
  \<open>newClient\<close> puts into it: the arguments of \<open>pxapi.NewClient\<close> and of \<open>SetAPIToken\<close>.
  The TLS configuration is \<open>None\<close> for nil and \<open>Some v\<close> for a configuration whose
  \<open>InsecureSkipVerify\<close> is \<open>v\<close>.
\<close>

record proxmoxClient =
  client_ApiUrl :: string
  client_http_headers :: string
  client_tls :: "bool option"
  client_proxy :: string
  client_TaskTimeout :: int
  client_APIToken_userID :: string
  client_APIToken_secret :: string

text \<open>The calls this code makes on the remote system, through a handle.\<close>

datatype api_call =
  NewConfigUserFromApi string string
  | CreateApiToken string string string string int bool
  | DeleteApiToken string string string

text \<open>
  What the code does not decide is a parameter: whether \<open>pxapi.NewClient\<close> rejects its
  URL, header list and proxy; what the remote system answers to a call, given the calls made
  before (\<open>Inl\<close> the error, \<open>Inr\<close> the value, the secret for \<open>CreateApiToken\<close>); the
  string of the identifier \<open>uuid.New()\<close> draws; the instant \<open>time.Now()\<close>, in nanoseconds
  since the Unix epoch.
\<close>

record environment =
  NewClient_err :: "string \<Rightarrow> string \<Rightarrow> string \<Rightarrow> string option"
  answer :: "proxmoxClient \<Rightarrow> api_call list \<Rightarrow> api_call \<Rightarrow> string + string"
  uuid_New_String :: string
  time_Now :: int

text \<open>A call is appended to the log of the remote system and answered.\<close>

definition remote_call ::
  "environment \<Rightarrow> proxmoxClient \<Rightarrow> api_call list \<Rightarrow> api_call \<Rightarrow> (string + string) \<times> api_call list"
where
  "remote_call env c log call = (answer env c log call, log @ [call])"

section \<open>Client (client.go)\<close>

definition newClient :: "environment \<Rightarrow> proxmoxConfig option \<Rightarrow> string + proxmoxClient" where
  "newClient env config =
     (case config of
        None \<Rightarrow> Inl ''client configuration was nil''
      | Some config \<Rightarrow>
          if ApiTokenID config = [] then Inl ''client api token was not defined''
          else
            let fullToken = User config @ ''@'' @ Realm config @ ''!'' @ ApiTokenID config;
                tlsConfig = (if \<not> SkipCertValidation config then None else Some True)
            in (case NewClient_err env (ApiURL config) (HTTPHeaders config) (ProxyServer config) of
                  Some err \<Rightarrow> Inl err
                | None \<Rightarrow>
                    Inr \<lparr>client_ApiUrl = ApiURL config,
                         client_http_headers = HTTPHeaders config,
                         client_tls = tlsConfig,
                         client_proxy = ProxyServer config,
                         client_TaskTimeout = Seconds_int (TaskTimeout config),
                         client_APIToken_userID = fullToken,
                         client_APIToken_secret = ApiTokenSecret config\<rparr>))"

section \<open>Backend and client cache (backend.go)\<close>

text \<open>
  The backend's mutable state is the cached handle. The lock is not modelled: a handler runs
  from its first statement to its return on the state it is given.
\<close>

record proxmoxBackend =
  client :: "proxmoxClient option"

definition backend :: proxmoxBackend where
  "backend = \<lparr>client = None\<rparr>"

definition reset :: "proxmoxBackend \<Rightarrow> proxmoxBackend" where
  "reset b = b\<lparr>client := None\<rparr>"

definition invalidate :: "proxmoxBackend \<Rightarrow> string \<Rightarrow> proxmoxBackend" where
  "invalidate b key = (if key = ''config'' then reset b else b)"

definition getClient ::
  "environment \<Rightarrow> proxmoxBackend \<Rightarrow> Storage \<Rightarrow> (string + proxmoxClient) \<times> proxmoxBackend"
where
  "getClient env b s =
     (case client b of
        Some c \<Rightarrow> (Inr c, b)
      | None \<Rightarrow>
          (case getConfig s of
             Inl err \<Rightarrow> (Inl err, b)
           | Inr config \<Rightarrow>
               let config = (case config of None \<Rightarrow> new_proxmoxConfig | Some c \<Rightarrow> c)
               in (case newClient env (Some config) of
                     Inl err \<Rightarrow> (Inl err, b\<lparr>client := None\<rparr>)
                   | Inr c \<Rightarrow> (Inr c, b\<lparr>client := Some c\<rparr>))))"

section \<open>Configuration writes and deletes (path_config.go)\<close>

text \<open>
  The defaults the schema of the \<open>config\<close> path declares, which \<open>GetDefaultOrZero\<close>
  returns: \<open>false\<close>, the empty string twice, and 120.
\<close>

definition pathConfigWrite ::
  "Operation \<Rightarrow> FieldData \<Rightarrow> Storage \<Rightarrow> proxmoxBackend
   \<Rightarrow> (string + logical_Response option) \<times> Storage \<times> proxmoxBackend"
where
  "pathConfigWrite op d s b =
     (case getConfig s of
        Inl err \<Rightarrow> (Inl err, s, b)
      | Inr config \<Rightarrow>
          let createOperation = (op = CreateOperation) in
          if config = None \<and> \<not> createOperation
          then (Inl ''config not found during update operation'', s, b)
          else
          let config = (case config of None \<Rightarrow> new_proxmoxConfig | Some c \<Rightarrow> c) in
          if fd_user d = None \<and> createOperation
          then (Inl ''missing user in configuration'', s, b)
          else
          let config = (case fd_user d of Some user \<Rightarrow> config\<lparr>User := user\<rparr> | None \<Rightarrow> config) in
          if fd_realm d = None \<and> createOperation
          then (Inl ''missing realm in configuration'', s, b)
          else
          let config = (case fd_realm d of Some realm \<Rightarrow> config\<lparr>Realm := realm\<rparr> | None \<Rightarrow> config) in
          if fd_token_id d = None \<and> createOperation
          then (Inl ''missing token_id in configuration'', s, b)
          else
          let config = (case fd_token_id d of
                          Some tokenID \<Rightarrow> config\<lparr>ApiTokenID := tokenID\<rparr> | None \<Rightarrow> config) in
          if fd_token_secret d = None \<and> createOperation
          then (Inl ''missing token_secret in configuration'', s, b)
          else
          let config = (case fd_token_secret d of
                          Some tokenSecret \<Rightarrow> config\<lparr>ApiTokenSecret := tokenSecret\<rparr>
                        | None \<Rightarrow> config);
              ok = (case fd_proxmox_url d of Some apiURL \<Rightarrow> 0 < length apiURL | None \<Rightarrow> False) in
          if \<not> ok \<and> createOperation
          then (Inl ''missing proxmox_url in configuration'', s, b)
          else
          let config = (case fd_proxmox_url d of
                          Some apiURL \<Rightarrow> if ok then config\<lparr>ApiURL := apiURL\<rparr> else config
                        | None \<Rightarrow> config);
              config = (case fd_insecure_skip_tls_verify d of
                          Some skipCert \<Rightarrow> config\<lparr>SkipCertValidation := skipCert\<rparr>
                        | None \<Rightarrow>
                            if createOperation then config\<lparr>SkipCertValidation := False\<rparr>
                            else config);
              config = (case fd_http_headers d of
                          Some httpHeaders \<Rightarrow> config\<lparr>HTTPHeaders := httpHeaders\<rparr>
                        | None \<Rightarrow>
                            if createOperation then config\<lparr>HTTPHeaders := []\<rparr> else config);
              config = (case fd_proxy_server d of
                          Some proxyServer \<Rightarrow> config\<lparr>ProxyServer := proxyServer\<rparr>
                        | None \<Rightarrow>
                            if createOperation then config\<lparr>ProxyServer := []\<rparr> else config);
              config = (case fd_timeout d of
                          Some taskTimeout \<Rightarrow> config\<lparr>TaskTimeout := taskTimeout * Second\<rparr>
                        | None \<Rightarrow>
                            if createOperation then config\<lparr>TaskTimeout := 120 * Second\<rparr>
                            else config)
          in (case Storage_Put s configStoragePath (ConfigJSON config) of
                (Some err, s') \<Rightarrow> (Inl err, s', b)
              | (None, s') \<Rightarrow> (Inr None, s', reset b)))"

definition pathConfigDelete ::
  "Storage \<Rightarrow> proxmoxBackend \<Rightarrow> (string + logical_Response option) \<times> Storage \<times> proxmoxBackend"
where
  "pathConfigDelete s b =
     (case Storage_Delete s configStoragePath of
        (None, s') \<Rightarrow> (Inr None, s', reset b)
      | (Some err, s') \<Rightarrow> (Inl err, s', b))"

section \<open>Role store (path_role.go)\<close>

definition getRole :: "Storage \<Rightarrow> string \<Rightarrow> string + proxmoxRoleEntry option" where
  "getRole s name =
     (if name = [] then Inl ''missing role name''
      else
        (case Storage_Get s (''role/'' @ name) of
           Inl err \<Rightarrow> Inl err
         | Inr None \<Rightarrow> Inr None
         | Inr (Some entry) \<Rightarrow>
             (case DecodeJSON_role entry of
                Inl err \<Rightarrow> Inl err
              | Inr role \<Rightarrow> Inr (Some role))))"

definition setRole :: "Storage \<Rightarrow> string \<Rightarrow> proxmoxRoleEntry \<Rightarrow> string option \<times> Storage" where
  "setRole s name roleEntry = Storage_Put s (''role/'' @ name) (RoleJSON roleEntry)"

text \<open>
  \<open>d.Get("ttl")\<close> and \<open>d.Get("max_ttl")\<close> on a request without the field return the zero
  of the schema's type, since the schema declares no default for them.
\<close>

definition pathRolesWrite ::
  "Operation \<Rightarrow> FieldData \<Rightarrow> Storage \<Rightarrow> (string + logical_Response option) \<times> Storage"
where
  "pathRolesWrite op d s =
     (case fd_name d of
        None \<Rightarrow> (Inr (Some (ErrorResponse ''missing role name'')), s)
      | Some name \<Rightarrow>
          (case getRole s name of
             Inl err \<Rightarrow> (Inl err, s)
           | Inr roleEntry \<Rightarrow>
               let roleEntry = (case roleEntry of
                                  None \<Rightarrow> \<lparr>Name = name, RoleUser = [], RoleRealm = [],
                                            TTL = 0, MaxTTL = 0\<rparr>
                                | Some r \<Rightarrow> r);
                   createOperation = (op = CreateOperation);
                   ok = (case fd_user d of Some user \<Rightarrow> 0 < length user | None \<Rightarrow> False) in
               if \<not> ok \<and> createOperation then (Inl ''missing user in role'', s)
               else
               let roleEntry = (case fd_user d of
                                  Some user \<Rightarrow> if ok then roleEntry\<lparr>RoleUser := user\<rparr> else roleEntry
                                | None \<Rightarrow> roleEntry);
                   ok = (case fd_realm d of Some realm \<Rightarrow> 0 < length realm | None \<Rightarrow> False) in
               if \<not> ok \<and> createOperation then (Inl ''missing realm in role'', s)
               else
               let roleEntry = (case fd_realm d of
                                  Some realm \<Rightarrow> if ok then roleEntry\<lparr>RoleRealm := realm\<rparr> else roleEntry
                                | None \<Rightarrow> roleEntry);
                   roleEntry = (case fd_ttl d of
                                  Some ttlRaw \<Rightarrow> roleEntry\<lparr>TTL := ttlRaw * Second\<rparr>
                                | None \<Rightarrow>
                                    if createOperation then roleEntry\<lparr>TTL := 0 * Second\<rparr>
                                    else roleEntry);
                   roleEntry = (case fd_max_ttl d of
                                  Some maxTTLRaw \<Rightarrow> roleEntry\<lparr>MaxTTL := maxTTLRaw * Second\<rparr>
                                | None \<Rightarrow>
                                    if createOperation then roleEntry\<lparr>MaxTTL := 0 * Second\<rparr>
                                    else roleEntry) in
               if MaxTTL roleEntry \<noteq> 0 \<and> MaxTTL roleEntry <s TTL roleEntry
               then (Inr (Some (ErrorResponse ''ttl cannot be greater than max_ttl'')), s)
               else
                 (case setRole s name roleEntry of
                    (Some err, s') \<Rightarrow> (Inl err, s')
                  | (None, s') \<Rightarrow> (Inr None, s'))))"

text \<open>\<open>d.Get("name")\<close> is the empty string when the request has no name.\<close>

definition pathRolesDelete ::
  "FieldData \<Rightarrow> Storage \<Rightarrow> (string + logical_Response option) \<times> Storage"
where
  "pathRolesDelete d s =
     (case Storage_Delete s (''role/'' @ (case fd_name d of Some name \<Rightarrow> name | None \<Rightarrow> [])) of
        (Some err, s') \<Rightarrow> (Inl (''error deleting role: '' @ err), s')
      | (None, s') \<Rightarrow> (Inr None, s'))"

section \<open>Tokens (proxmox_api_token.go)\<close>

record proxmoxToken =
  TokenID :: string
  TokenSecret :: string

text \<open>
  The replacer of \<open>createToken\<close>: every old string is one byte and every new string is one
  byte, so \<open>Replace\<close> maps each byte of its argument on its own.
\<close>

definition remap :: "char \<Rightarrow> char" where
  "remap c =
     (if c = CHR ''0'' then CHR ''g'' else if c = CHR ''1'' then CHR ''h''
      else if c = CHR ''2'' then CHR ''i'' else if c = CHR ''3'' then CHR ''j''
      else if c = CHR ''4'' then CHR ''k'' else if c = CHR ''5'' then CHR ''l''
      else if c = CHR ''6'' then CHR ''m'' else if c = CHR ''7'' then CHR ''n''
      else if c = CHR ''8'' then CHR ''o'' else if c = CHR ''9'' then CHR ''p''
      else c)"

definition Replace :: "string \<Rightarrow> string" where
  "Replace str = map remap str"

definition createToken ::
  "environment \<Rightarrow> proxmoxClient \<Rightarrow> api_call list \<Rightarrow> string \<Rightarrow> string \<Rightarrow> int \<Rightarrow> bool
   \<Rightarrow> (string + proxmoxToken) \<times> api_call list"
where
  "createToken env c log user realm expire privsep =
     (if length user = 0 then (Inl ''error creating token: no user provided'', log)
      else if length realm = 0 then (Inl ''error creating token: no realm provided'', log)
      else
        let rawTokenId = uuid_New_String env;
            tokenId = Replace rawTokenId
        in (case remote_call env c log (NewConfigUserFromApi user realm) of
              (Inl err, log) \<Rightarrow> (Inl (''error when setting up API user: '' @ err), log)
            | (Inr u, log) \<Rightarrow>
                (case remote_call env c log
                        (CreateApiToken user realm tokenId ''Managed by Vault'' expire privsep) of
                   (Inl err, log) \<Rightarrow> (Inl (''error from API when creating token: '' @ err), log)
                 | (Inr secret, log) \<Rightarrow>
                     (Inr \<lparr>TokenID = tokenId, TokenSecret = secret\<rparr>, log))))"

definition deleteToken ::
  "environment \<Rightarrow> proxmoxClient \<Rightarrow> api_call list \<Rightarrow> string \<Rightarrow> string \<Rightarrow> string
   \<Rightarrow> string option \<times> api_call list"
where
  "deleteToken env c log user realm tokenID =
     (case remote_call env c log (NewConfigUserFromApi user realm) of
        (Inl err, log) \<Rightarrow> (Some err, log)
      | (Inr u, log) \<Rightarrow>
          (case remote_call env c log (DeleteApiToken user realm tokenID) of
             (Inl err, log) \<Rightarrow> (Some err, log)
           | (Inr _, log) \<Rightarrow> (None, log)))"

text \<open>
  \<open>tokenRevoke\<close> on the secret of the request. \<open>tokenIDRaw.(string)\<close> is the checked form of
  the type assertion, \<open>roleRaw.(string)\<close> the unchecked one, which panics on a value that
  is not a string.
\<close>

definition tokenRevoke ::
  "environment \<Rightarrow> logical_Secret \<Rightarrow> Storage \<Rightarrow> proxmoxBackend \<Rightarrow> api_call list
   \<Rightarrow> (error + logical_Response option) \<times> proxmoxBackend \<times> api_call list"
where
  "tokenRevoke env secret s b log =
     (case getClient env b s of
        (Inl err, b) \<Rightarrow> (Inl (Err (''error getting client: '' @ err)), b, log)
      | (Inr c, b) \<Rightarrow>
          (case (case InternalData secret ''token_id'' of
                   None \<Rightarrow> Some []
                 | Some (VString tokenID) \<Rightarrow> Some tokenID
                 | Some _ \<Rightarrow> None) of
             None \<Rightarrow> (Inl (Err ''invalid value for token in secret internal data''), b, log)
           | Some tokenID \<Rightarrow>
               (case InternalData secret ''role'' of
                  None \<Rightarrow> (Inl (Err ''secret is missing role internal data''), b, log)
                | Some (VString role) \<Rightarrow>
                    (case getRole s role of
                       Inl err \<Rightarrow> (Inl (Err (''error retrieving role: '' @ err)), b, log)
                     | Inr None \<Rightarrow> (Inl (Err ''error retrieving role: role is nil''), b, log)
                     | Inr (Some roleEntry) \<Rightarrow>
                         (case deleteToken env c log (RoleUser roleEntry)
                                 (RoleRealm roleEntry) tokenID of
                            (Some err, log) \<Rightarrow>
                              (Inl (Err (''error revoking user token: '' @ err)), b, log)
                          | (None, log) \<Rightarrow> (Inr None, b, log)))
                | Some _ \<Rightarrow>
                    (Inl (Panic ''interface conversion: interface {} is not string''), b, log))))"

section \<open>Credentials (path_credentials.go)\<close>

text \<open>
  The method \<open>createToken\<close> of the backend, named \<open>backend_createToken\<close> apart from the
  function of the same name above. That function returns a token whenever it returns no
  error, so the test of the token against nil never fires.
\<close>

definition backend_createToken ::
  "environment \<Rightarrow> proxmoxRoleEntry \<Rightarrow> Storage \<Rightarrow> proxmoxBackend \<Rightarrow> api_call list
   \<Rightarrow> (string + proxmoxToken) \<times> proxmoxBackend \<times> api_call list"
where
  "backend_createToken env role s b log =
     (case getClient env b s of
        (Inl err, b) \<Rightarrow> (Inl err, b, log)
      | (Inr c, b) \<Rightarrow>
          let expire = (if 0 <s TTL role then (time_Now env + sint (TTL role)) div 1000000000
                        else 0);
              privsep = False
          in (case createToken env c log (RoleUser role) (RoleRealm role) expire privsep of
                (Inl err, log) \<Rightarrow>
                  (Inl (''error creating Proxmox API token for role '' @ [CHR 0x27] @ Name role
                        @ [CHR 0x27] @ '': '' @ err), b, log)
              | (Inr token, log) \<Rightarrow> (Inr token, b, log)))"

text \<open>
  \<open>b.Secret(proxmoxTokenType).Response(data, internal)\<close> belongs to the framework; the
  model keeps the two maps this code hands to it, and the zero lease durations it starts from.
\<close>

definition Secret_Response :: "(string \<rightharpoonup> val) \<Rightarrow> (string \<rightharpoonup> val) \<Rightarrow> logical_Response" where
  "Secret_Response data internal =
     \<lparr>Data = data,
      Secret = Some \<lparr>InternalData = internal, Secret_TTL = 0, Secret_MaxTTL = 0\<rparr>\<rparr>"

definition createUserCreds ::
  "environment \<Rightarrow> proxmoxRoleEntry \<Rightarrow> Storage \<Rightarrow> proxmoxBackend \<Rightarrow> api_call list
   \<Rightarrow> (string + logical_Response) \<times> proxmoxBackend \<times> api_call list"
where
  "createUserCreds env role s b log =
     (case backend_createToken env role s b log of
        (Inl err, b, log) \<Rightarrow> (Inl err, b, log)
      | (Inr token, b, log) \<Rightarrow>
          let tokenIDFull = RoleUser role @ ''@'' @ RoleRealm role @ ''!'' @ TokenID token;
              resp = Secret_Response
                       [''token_id'' \<mapsto> VString (TokenID token),
                        ''token_id_full'' \<mapsto> VString tokenIDFull,
                        ''secret'' \<mapsto> VString (TokenSecret token)]
                       [''token_id'' \<mapsto> VString (TokenID token),
                        ''role'' \<mapsto> VString (Name role)];
              secret = (case Secret resp of
                          Some sec \<Rightarrow>
                            let sec = (if 0 <s TTL role then sec\<lparr>Secret_TTL := TTL role\<rparr> else sec);
                                sec = (if 0 <s MaxTTL role then sec\<lparr>Secret_MaxTTL := MaxTTL role\<rparr>
                                       else sec)
                            in Some sec
                        | None \<Rightarrow> None)
          in (Inr (resp\<lparr>Secret := secret\<rparr>), b, log))"

definition pathCredentialsRead ::
  "environment \<Rightarrow> FieldData \<Rightarrow> Storage \<Rightarrow> proxmoxBackend \<Rightarrow> api_call list
   \<Rightarrow> (string + logical_Response) \<times> proxmoxBackend \<times> api_call list"
where
  "pathCredentialsRead env d s b log =
     (let roleName = (case fd_name d of Some name \<Rightarrow> name | None \<Rightarrow> []) in
      case getRole s roleName of
        Inl err \<Rightarrow> (Inl (''error retrieving role: '' @ err), b, log)
      | Inr None \<Rightarrow> (Inl ''error retrieving role: role is nil'', b, log)
      | Inr (Some roleEntry) \<Rightarrow> createUserCreds env roleEntry s b log)"

section \<open>The naming rule of the remote system and the form of a UUID\<close>

text \<open>
  The comment in \<open>createToken\<close> gives the rule for token identifiers: they start with
  a letter, \<open>[A-Za-z]\<close>. \<open>uuid.New().String()\<close> is the canonical text of a UUID: 36
  characters, lowercase hexadecimal digits in groups of 8, 4, 4, 4 and 12, with hyphens
  between the groups.
\<close>

definition isDigit :: "char \<Rightarrow> bool" where
  "isDigit c = (c \<in> set ''0123456789'')"

definition isLetter :: "char \<Rightarrow> bool" where
  "isLetter c = (c \<in> set ''abcdefghijklmnopqrstuvwxyzABCDEFGHIJKLMNOPQRSTUVWXYZ'')"

definition isHex :: "char \<Rightarrow> bool" where
  "isHex c = (c \<in> set ''0123456789abcdef'')"

definition is_uuid_String :: "string \<Rightarrow> bool" where
  "is_uuid_String str =
     (length str = 36
      \<and> list_all isHex (take 8 str) \<and> str ! 8 = CHR ''-''
      \<and> list_all isHex (take 4 (drop 9 str)) \<and> str ! 13 = CHR ''-''
      \<and> list_all isHex (take 4 (drop 14 str)) \<and> str ! 18 = CHR ''-''
      \<and> list_all isHex (take 4 (drop 19 str)) \<and> str ! 23 = CHR ''-''
      \<and> list_all isHex (drop 24 str))"

section \<open>The states the handlers reach\<close>

text \<open>
  A state is the backend with the storage it is mounted on. The backend starts with an empty
  cache on any storage; each handler that changes the cache or the storage is a step, with
  any request and any environment; \<open>invalidate\<close> is a step; and between two requests the
  storage may start or stop failing. The contents of the storage change through the handlers
  only.
\<close>

inductive reachable :: "proxmoxBackend \<times> Storage \<Rightarrow> bool" where
  start: "reachable (backend, s)"
| config_write:
    "reachable (b, s) \<Longrightarrow> pathConfigWrite op d s b = (res, s', b') \<Longrightarrow> reachable (b', s')"
| config_delete:
    "reachable (b, s) \<Longrightarrow> pathConfigDelete s b = (res, s', b') \<Longrightarrow> reachable (b', s')"
| roles_write:
    "reachable (b, s) \<Longrightarrow> pathRolesWrite op d s = (res, s') \<Longrightarrow> reachable (b, s')"
| roles_delete:
    "reachable (b, s) \<Longrightarrow> pathRolesDelete d s = (res, s') \<Longrightarrow> reachable (b, s')"
| credentials_read:
    "reachable (b, s) \<Longrightarrow> pathCredentialsRead env d s b log = (r, b', log')
     \<Longrightarrow> reachable (b', s)"
| revoke:
    "reachable (b, s) \<Longrightarrow> tokenRevoke env secret s b log = (r', b', log')
     \<Longrightarrow> reachable (b', s)"
| invalidated:
    "reachable (b, s) \<Longrightarrow> reachable (invalidate b key, s)"
| storage_faults:
    "reachable (b, s) \<Longrightarrow> reachable (b, s\<lparr>get_err := g, put_err := p, delete_err := e\<rparr>)"

text \<open>
  The relation between cache and storage that every reachable state has: a cached handle was
  built from the profile now stored, whose token identifier is not empty.
\<close>

definition cache_from_profile :: "proxmoxBackend \<Rightarrow> Storage \<Rightarrow> bool" where
  "cache_from_profile b s =
     (case client b of
        None \<Rightarrow> True
      | Some c \<Rightarrow>
          (case kv s configStoragePath of
             None \<Rightarrow> False
           | Some entry \<Rightarrow>
               (case DecodeJSON_config entry of
                  Inl err \<Rightarrow> False
                | Inr config \<Rightarrow>
                    ApiTokenID config \<noteq> []
                    \<and> client_APIToken_userID c
                        = User config @ ''@'' @ Realm config @ ''!'' @ ApiTokenID config)))"

section \<open>Fixtures\<close>

text \<open>
  The configuration of the repository's configuration test, the role of its README, a
  storage that holds neither, one that holds the configuration, an environment in which
  the remote system accepts every call, the handle built from the configuration, a backend
  that has it in its cache, and a request without fields.
\<close>

definition test_config :: proxmoxConfig where
  "test_config =
     \<lparr>User = ''root'', Realm = ''pam'', ApiTokenID = ''my_test_token'',
      ApiTokenSecret = ''111-222-333'', ApiURL = ''https://example.com:8006/api2/json'',
      SkipCertValidation = False, HTTPHeaders = [], ProxyServer = [],
      TaskTimeout = 300 * Second\<rparr>"

definition test_role :: proxmoxRoleEntry where
  "test_role =
     \<lparr>Name = ''alice'', RoleUser = ''alice'', RoleRealm = ''pve'', TTL = 300 * Second,
      MaxTTL = 0\<rparr>"

definition empty_Storage :: Storage where
  "empty_Storage = \<lparr>kv = Map.empty, get_err = None, put_err = None, delete_err = None\<rparr>"

definition test_Storage :: Storage where
  "test_Storage =
     \<lparr>kv = [''config'' \<mapsto> ConfigJSON test_config], get_err = None, put_err = None,
      delete_err = None\<rparr>"

definition test_environment :: environment where
  "test_environment =
     \<lparr>NewClient_err = (\<lambda>url headers proxy. None),
      answer = (\<lambda>c log call. Inr ''0c1d2e3f-aaaa-4bbb-8ccc-1234567890ab''),
      uuid_New_String = ''123e4567-e89b-42d3-a456-426614174000'',
      time_Now = 0\<rparr>"

definition test_client :: proxmoxClient where
  "test_client =
     \<lparr>client_ApiUrl = ''https://example.com:8006/api2/json'', client_http_headers = [],
      client_tls = None, client_proxy = [], client_TaskTimeout = 300,
      client_APIToken_userID = ''root@pam!my_test_token'',
      client_APIToken_secret = ''111-222-333''\<rparr>"

definition cached_backend :: proxmoxBackend where
  "cached_backend = \<lparr>client = Some test_client\<rparr>"

definition no_FieldData :: FieldData where
  "no_FieldData =
     \<lparr>fd_name = None, fd_user = None, fd_realm = None, fd_token_id = None,
      fd_token_secret = None, fd_proxmox_url = None, fd_insecure_skip_tls_verify = None,
      fd_http_headers = None, fd_proxy_server = None, fd_timeout = None, fd_ttl = None,
      fd_max_ttl = None\<rparr>"

section \<open>Evaluating the fixtures\<close>

lemma test_durations:
  "0 <s (300 * Second :: Duration)" "\<not> 0 <s (0 :: Duration)"
  "0 <s (100 * Second :: Duration)" "(100 * Second :: Duration) <s 500 * Second"
  "sint (300 * Second) = 300000000000" "Seconds_int (300 * Second) = 300"
  by (simp_all add: Second_def Seconds_int_def word_sless_alt)

lemma getConfig_empty_Storage: "getConfig empty_Storage = Inr None"
  by (simp add: getConfig_def Storage_Get_def empty_Storage_def)

lemma getConfig_test_Storage: "getConfig test_Storage = Inr (Some test_config)"
  by (simp add: getConfig_def Storage_Get_def test_Storage_def configStoragePath_def
        DecodeJSON_config_def)

lemma getRole_alice_absent: "getRole test_Storage ''alice'' = Inr None"
  by (simp add: getRole_def Storage_Get_def test_Storage_def)

lemma test_Storage_fields:
  "kv test_Storage = [''config'' \<mapsto> ConfigJSON test_config]" "get_err test_Storage = None"
  "put_err test_Storage = None" "delete_err test_Storage = None"
  by (simp_all add: test_Storage_def)

lemma newClient_test_config: "newClient test_environment (Some test_config) = Inr test_client"
  by (simp add: newClient_def test_config_def test_environment_def test_durations
        test_client_def)

lemma getClient_test_Storage:
  "getClient test_environment backend test_Storage = (Inr test_client, cached_backend)"
  by (simp add: getClient_def backend_def getConfig_test_Storage newClient_test_config
        cached_backend_def)

lemma createToken_test:
  "createToken test_environment c [] ''alice'' ''pve'' 300 False =
     (Inr \<lparr>TokenID = ''hijeklmn-eopb-kidj-aklm-kimmhkhnkggg'',
           TokenSecret = ''0c1d2e3f-aaaa-4bbb-8ccc-1234567890ab''\<rparr>,
      [NewConfigUserFromApi ''alice'' ''pve'',
       CreateApiToken ''alice'' ''pve'' ''hijeklmn-eopb-kidj-aklm-kimmhkhnkggg''
         ''Managed by Vault'' 300 False])"
  by (simp add: createToken_def remote_call_def test_environment_def Replace_def remap_def
        Let_def)

lemma backend_createToken_test:
  "\<exists>b' log'. backend_createToken test_environment test_role test_Storage backend [] =
     (Inr \<lparr>TokenID = ''hijeklmn-eopb-kidj-aklm-kimmhkhnkggg'',
           TokenSecret = ''0c1d2e3f-aaaa-4bbb-8ccc-1234567890ab''\<rparr>, b', log')"
proof -
  note getClient_test_Storage
  moreover have "time_Now test_environment = 0" by (simp add: test_environment_def)
  moreover have "TTL test_role = 300 * Second" "RoleUser test_role = ''alice''"
    "RoleRealm test_role = ''pve''" by (simp_all add: test_role_def)
  ultimately show ?thesis
    by (simp add: backend_createToken_def test_durations createToken_test)
qed

section \<open>The configuration store\<close>

lemma getConfig_get_err: "get_err s = Some m \<Longrightarrow> getConfig s = Inl m"
  by (simp add: getConfig_def Storage_Get_def)

lemma getConfig_Some:
  "getConfig s = Inr (Some config) \<Longrightarrow>
   \<exists>entry. kv s configStoragePath = Some entry \<and> DecodeJSON_config entry = Inr config"
  by (auto simp: getConfig_def Storage_Get_def split: option.splits sum.splits)

text \<open>
  Every run of \<open>pathConfigWrite\<close> ends in one of two ways: with an error before anything is
  written, or in the write of some profile followed, if it succeeds, by \<open>reset\<close>.
\<close>

lemma pathConfigWrite_shape:
  assumes err: "\<And>err. P (Inl err, s, b)"
    and put: "\<And>config. get_err s = None \<Longrightarrow>
                P (case Storage_Put s configStoragePath (ConfigJSON config) of
                     (Some err, s') \<Rightarrow> (Inl err, s', b)
                   | (None, s') \<Rightarrow> (Inr None, s', reset b))"
  shows "P (pathConfigWrite op d s b)"
proof (cases "get_err s")
  case (Some m)
  then show ?thesis by (simp add: pathConfigWrite_def getConfig_get_err err)
next
  case None
  note put' = put [OF None]
  show ?thesis
  proof (cases "op = CreateOperation")
    case True
    then show ?thesis
      by (simp add: pathConfigWrite_def Let_def err put' split: sum.splits)
  next
    case False
    then show ?thesis
      by (simp add: pathConfigWrite_def Let_def err put' split: sum.splits)
  qed
qed

lemma pathConfigWrite_Inr:
  assumes "pathConfigWrite op d s b = (Inr r, s', b')"
  shows "r = None \<and> b' = reset b \<and> get_err s = None
         \<and> (\<exists>config. s' = s\<lparr>kv := (kv s)(configStoragePath \<mapsto> ConfigJSON config)\<rparr>)"
proof -
  let ?P = "\<lambda>res. \<forall>r s' b'. res = (Inr r, s', b') \<longrightarrow>
               r = None \<and> b' = reset b \<and> get_err s = None
               \<and> (\<exists>config. s' = s\<lparr>kv := (kv s)(configStoragePath \<mapsto> ConfigJSON config)\<rparr>)"
  have "?P (pathConfigWrite op d s b)"
  proof (rule pathConfigWrite_shape)
    fix err show "?P (Inl err, s, b)" by simp
  next
    fix config
    assume "get_err s = None"
    then show "?P (case Storage_Put s configStoragePath (ConfigJSON config) of
                     (Some err, s') \<Rightarrow> (Inl err, s', b)
                   | (None, s') \<Rightarrow> (Inr None, s', reset b))"
      by (auto simp: Storage_Put_def split: option.splits)
  qed
  with assms show ?thesis by blast
qed

lemma pathConfigWrite_unchanged_or_reset:
  assumes "pathConfigWrite op d s b = (res, s', b')"
  shows "(s' = s \<and> b' = b) \<or> client b' = None"
proof -
  let ?P = "\<lambda>x. \<forall>res s' b'. x = (res, s', b') \<longrightarrow> (s' = s \<and> b' = b) \<or> client b' = None"
  have "?P (pathConfigWrite op d s b)"
  proof (rule pathConfigWrite_shape)
    fix err show "?P (Inl err, s, b)" by simp
  next
    fix config
    show "?P (case Storage_Put s configStoragePath (ConfigJSON config) of
                (Some err, s') \<Rightarrow> (Inl err, s', b)
              | (None, s') \<Rightarrow> (Inr None, s', reset b))"
      by (auto simp: Storage_Put_def reset_def split: option.splits)
  qed
  with assms show ?thesis by simp
qed

lemma pathConfigDelete_unchanged_or_reset:
  assumes "pathConfigDelete s b = (res, s', b')"
  shows "(s' = s \<and> b' = b) \<or> client b' = None"
  using assms
  by (auto simp: pathConfigDelete_def Storage_Delete_def reset_def split: option.splits)

lemma pathConfigDelete_Inr:
  assumes "pathConfigDelete s b = (Inr r, s', b')"
  shows "r = None \<and> b' = reset b \<and> s' = s\<lparr>kv := (kv s)(configStoragePath := None)\<rparr>"
  using assms by (auto simp: pathConfigDelete_def Storage_Delete_def split: option.splits)

text \<open>
  C1. The claim: a read of the configuration when no profile is stored succeeds with a
  default configuration. On the storage that holds nothing \<open>getConfig\<close> returns no
  profile and no error, and \<open>pathConfigRead\<close> panics on the nil it is given.
\<close>

theorem pathConfigRead_no_profile_panics:
  "pathConfigRead empty_Storage
     = Inl (Panic ''invalid memory address or nil pointer dereference'')"
  by (simp add: pathConfigRead_def getConfig_empty_Storage)

section \<open>Token identifiers\<close>

lemma remap_no_digit: "\<not> isDigit (remap c)"
  by (simp add: isDigit_def remap_def)

lemma remap_hex_letter: "isHex c \<Longrightarrow> isLetter (remap c)"
  unfolding isHex_def isLetter_def remap_def by auto

lemma uuid_String_hd:
  assumes "is_uuid_String str"
  shows "str \<noteq> [] \<and> isHex (hd str)"
proof -
  from assms have len: "length str = 36" and hex: "list_all isHex (take 8 str)"
    by (simp_all add: is_uuid_String_def)
  from len obtain x xs where str: "str = x # xs" by (cases str) auto
  with hex show ?thesis by simp
qed

lemma Replace_uuid:
  assumes "is_uuid_String raw"
  shows "Replace raw \<noteq> [] \<and> isLetter (hd (Replace raw))
         \<and> (\<forall>ch \<in> set (Replace raw). \<not> isDigit ch)"
proof -
  from uuid_String_hd [OF assms] obtain x xs where raw: "raw = x # xs" and x: "isHex x"
    by (cases raw) auto
  have "\<forall>ch \<in> set (Replace raw). \<not> isDigit ch"
    by (auto simp: Replace_def remap_no_digit)
  with raw x show ?thesis by (simp add: Replace_def remap_hex_letter)
qed

lemma createToken_TokenID:
  "createToken env c log user realm expire privsep = (Inr token, log') \<Longrightarrow>
   TokenID token = Replace (uuid_New_String env)"
  by (auto simp: createToken_def Let_def remote_call_def split: if_splits sum.splits prod.splits)

lemma backend_createToken_TokenID:
  "backend_createToken env role s b log = (Inr token, b', log') \<Longrightarrow>
   TokenID token = Replace (uuid_New_String env)"
  by (auto simp: backend_createToken_def Let_def split: sum.splits prod.splits
           dest: createToken_TokenID)

lemma test_uuid: "is_uuid_String (uuid_New_String test_environment)"
  by (simp add: is_uuid_String_def isHex_def test_environment_def)

text \<open>
  C2. Whenever the identifier drawn is the text of a UUID, the identifier of a token that
  \<open>createToken\<close> returns, and so of one that the backend's \<open>createToken\<close> returns, is not
  empty, starts with a letter and contains no decimal digit.
\<close>

theorem token_identifier_letter_first_no_digits:
  assumes "is_uuid_String (uuid_New_String env)"
    and "createToken env c log user realm expire privsep = (Inr token, log')
         \<or> backend_createToken env role s b log = (Inr token, b', log'')"
  shows "TokenID token \<noteq> [] \<and> isLetter (hd (TokenID token))
         \<and> (\<forall>ch \<in> set (TokenID token). \<not> isDigit ch)"
proof -
  from assms(2) have "TokenID token = Replace (uuid_New_String env)"
    by (auto dest: createToken_TokenID backend_createToken_TokenID)
  with Replace_uuid [OF assms(1)] show ?thesis by simp
qed

theorem token_identifier_letter_first_no_digits_witness:
  "is_uuid_String (uuid_New_String test_environment)
   \<and> isLetter (hd ''hijeklmn-eopb-kidj-aklm-kimmhkhnkggg'')
   \<and> list_all (\<lambda>ch. \<not> isDigit ch) ''hijeklmn-eopb-kidj-aklm-kimmhkhnkggg''"
proof -
  let ?token = "\<lparr>TokenID = ''hijeklmn-eopb-kidj-aklm-kimmhkhnkggg'',
                  TokenSecret = ''0c1d2e3f-aaaa-4bbb-8ccc-1234567890ab''\<rparr>"
  from backend_createToken_test obtain b' log' where
    "backend_createToken test_environment test_role test_Storage backend []
       = (Inr ?token, b', log')" by blast
  then have
    "createToken test_environment \<lparr>client_ApiUrl = [], client_http_headers = [],
        client_tls = None, client_proxy = [], client_TaskTimeout = 0,
        client_APIToken_userID = [], client_APIToken_secret = []\<rparr> [] ''alice'' ''pve''
        300 False
       = (Inr ?token,
          [NewConfigUserFromApi ''alice'' ''pve'',
           CreateApiToken ''alice'' ''pve'' ''hijeklmn-eopb-kidj-aklm-kimmhkhnkggg''
             ''Managed by Vault'' 300 False])
     \<or> backend_createToken test_environment test_role test_Storage backend []
       = (Inr ?token, b', log')" by simp
  from token_identifier_letter_first_no_digits [OF test_uuid this] test_uuid
  show ?thesis by (simp add: list_all_iff)
qed

section \<open>The role store\<close>

text \<open>
  C3. A role write that reaches the comparison of the durations with a record whose maximum
  is positive and whose default exceeds it returns the error response and the storage it was
  given. The record is the stored one, or a fresh one, with the durations of the request on
  top; a create operation has passed the tests of user and realm.
\<close>

theorem pathRolesWrite_ttl_above_max_ttl:
  assumes name: "fd_name d = Some name"
    and get: "getRole s name = Inr existing"
    and req: "op = CreateOperation \<longrightarrow>
              (\<exists>u. fd_user d = Some u \<and> u \<noteq> []) \<and> (\<exists>r. fd_realm d = Some r \<and> r \<noteq> [])"
    and ttl: "ttl = (case fd_ttl d of
                       Some t \<Rightarrow> t * Second
                     | None \<Rightarrow> if op = CreateOperation then 0
                               else (case existing of Some r \<Rightarrow> TTL r | None \<Rightarrow> 0))"
    and max: "max_ttl = (case fd_max_ttl d of
                           Some t \<Rightarrow> t * Second
                         | None \<Rightarrow> if op = CreateOperation then 0
                                   else (case existing of Some r \<Rightarrow> MaxTTL r | None \<Rightarrow> 0))"
    and pos: "0 <s max_ttl"
    and gt: "max_ttl <s ttl"
  shows "pathRolesWrite op d s
           = (Inr (Some (ErrorResponse ''ttl cannot be greater than max_ttl'')), s)"
proof -
  from pos have nz: "max_ttl \<noteq> 0" by auto
  show ?thesis
  proof (cases "op = CreateOperation")
    case True
    with req obtain u r where "fd_user d = Some u" "u \<noteq> []" "fd_realm d = Some r" "r \<noteq> []"
      by blast
    with True name get ttl max nz gt show ?thesis
      by (simp add: pathRolesWrite_def Let_def split: option.splits)
  next
    case False
    with name get ttl max nz gt show ?thesis
      by (simp add: pathRolesWrite_def Let_def split: option.splits)
  qed
qed

theorem pathRolesWrite_ttl_above_max_ttl_witness:
  "pathRolesWrite UpdateOperation
     (no_FieldData\<lparr>fd_name := Some ''alice'', fd_user := Some ''alice'',
        fd_realm := Some ''pve'', fd_ttl := Some 500, fd_max_ttl := Some 100\<rparr>) test_Storage
     = (Inr (Some (ErrorResponse ''ttl cannot be greater than max_ttl'')), test_Storage)"
proof -
  let ?d = "no_FieldData\<lparr>fd_name := Some ''alice'', fd_user := Some ''alice'',
              fd_realm := Some ''pve'', fd_ttl := Some 500, fd_max_ttl := Some 100\<rparr>"
  have "fd_name ?d = Some ''alice''" by simp
  moreover note getRole_alice_absent
  moreover have "UpdateOperation = CreateOperation \<longrightarrow>
      (\<exists>u. fd_user ?d = Some u \<and> u \<noteq> []) \<and> (\<exists>r. fd_realm ?d = Some r \<and> r \<noteq> [])" by simp
  moreover have "500 * Second = (case fd_ttl ?d of
                       Some t \<Rightarrow> t * Second
                     | None \<Rightarrow> if UpdateOperation = CreateOperation then 0
                               else (case None of Some r \<Rightarrow> TTL r | None \<Rightarrow> 0))" by simp
  moreover have "100 * Second = (case fd_max_ttl ?d of
                       Some t \<Rightarrow> t * Second
                     | None \<Rightarrow> if UpdateOperation = CreateOperation then 0
                               else (case None of Some r \<Rightarrow> MaxTTL r | None \<Rightarrow> 0))" by simp
  moreover note test_durations(3) test_durations(4)
  ultimately show ?thesis by (rule pathRolesWrite_ttl_above_max_ttl)
qed

section \<open>Reading the configuration\<close>

text \<open>
  C5. A read of the configuration when a profile is stored returns the eight fields of the
  profile that are not the secret, each with the value stored, and nothing under the key of
  the secret; the response is the same whatever the secret of the stored profile is.
\<close>

theorem pathConfigRead_omits_secret:
  assumes "getConfig s = Inr (Some c)"
  shows "\<exists>resp. pathConfigRead s = Inr (Some resp)
     \<and> dom (Data resp) = {''user'', ''realm'', ''token_id'', ''proxmox_url'',
          ''insecure_skip_tls_verify'', ''http_headers'', ''proxy_server'', ''timeout''}
     \<and> Data resp ''user'' = Some (VString (User c))
     \<and> Data resp ''realm'' = Some (VString (Realm c))
     \<and> Data resp ''token_id'' = Some (VString (ApiTokenID c))
     \<and> Data resp ''proxmox_url'' = Some (VString (ApiURL c))
     \<and> Data resp ''insecure_skip_tls_verify'' = Some (VBool (SkipCertValidation c))
     \<and> Data resp ''http_headers'' = Some (VString (HTTPHeaders c))
     \<and> Data resp ''proxy_server'' = Some (VString (ProxyServer c))
     \<and> Data resp ''timeout'' = Some (VInt (Seconds_int (TaskTimeout c)))
     \<and> Data resp ''token_secret'' = None
     \<and> Secret resp = None
     \<and> (\<forall>s' x. getConfig s' = Inr (Some (c\<lparr>ApiTokenSecret := x\<rparr>))
            \<longrightarrow> pathConfigRead s' = Inr (Some resp))"
  using assms by (auto simp: pathConfigRead_def)

theorem pathConfigRead_omits_secret_witness:
  "\<exists>resp. pathConfigRead test_Storage = Inr (Some resp)
     \<and> Data resp ''user'' = Some (VString ''root'')
     \<and> Data resp ''token_id'' = Some (VString ''my_test_token'')
     \<and> Data resp ''timeout'' = Some (VInt 300)
     \<and> Data resp ''token_secret'' = None
     \<and> pathConfigRead
           (test_Storage\<lparr>kv := [''config'' \<mapsto>
               ConfigJSON (test_config\<lparr>ApiTokenSecret := ''444-555-666''\<rparr>)]\<rparr>)
         = Inr (Some resp)"
proof -
  let ?s' = "test_Storage\<lparr>kv := [''config'' \<mapsto>
               ConfigJSON (test_config\<lparr>ApiTokenSecret := ''444-555-666''\<rparr>)]\<rparr>"
  have g: "getConfig ?s' = Inr (Some (test_config\<lparr>ApiTokenSecret := ''444-555-666''\<rparr>))"
    by (simp add: getConfig_def Storage_Get_def test_Storage_def configStoragePath_def
          DecodeJSON_config_def)
  from pathConfigRead_omits_secret [OF getConfig_test_Storage] obtain resp where
    r: "pathConfigRead test_Storage = Inr (Some resp)"
    and u: "Data resp ''user'' = Some (VString (User test_config))"
    and t: "Data resp ''token_id'' = Some (VString (ApiTokenID test_config))"
    and m: "Data resp ''timeout'' = Some (VInt (Seconds_int (TaskTimeout test_config)))"
    and n: "Data resp ''token_secret'' = None"
    and i: "\<forall>s' x. getConfig s' = Inr (Some (test_config\<lparr>ApiTokenSecret := x\<rparr>))
              \<longrightarrow> pathConfigRead s' = Inr (Some resp)"
    by blast
  from i g have "pathConfigRead ?s' = Inr (Some resp)" by blast
  moreover from u have "Data resp ''user'' = Some (VString ''root'')"
    by (simp add: test_config_def)
  moreover from t have "Data resp ''token_id'' = Some (VString ''my_test_token'')"
    by (simp add: test_config_def)
  moreover from m have "Data resp ''timeout'' = Some (VInt 300)"
    by (simp add: test_config_def test_durations)
  ultimately show ?thesis using r n by blast
qed

section \<open>Revocation\<close>

text \<open>
  C4. When the internal data of the lease has no role, or names a role that \<open>getRole\<close>
  does not return (it was deleted, or the storage fails), \<open>tokenRevoke\<close> returns an error
  and makes no call on the remote system.
\<close>

theorem tokenRevoke_role_gone:
  assumes "InternalData secret ''role'' = None
           \<or> (\<exists>role. InternalData secret ''role'' = Some (VString role)
                 \<and> (\<forall>r. getRole s role \<noteq> Inr (Some r)))"
  shows "\<exists>msg b'. tokenRevoke env secret s b log = (Inl (Err msg), b', log)"
  using assms
  by (auto simp: tokenRevoke_def split: prod.splits sum.splits option.splits val.splits)

theorem tokenRevoke_role_gone_witness:
  "\<exists>b'. tokenRevoke test_environment
     \<lparr>InternalData = [''token_id'' \<mapsto> VString ''hijeklmn-eopb-kidj-aklm-kimmhkhnkggg'',
                      ''role'' \<mapsto> VString ''alice''],
      Secret_TTL = 300 * Second, Secret_MaxTTL = 0\<rparr>
     test_Storage backend
     [NewConfigUserFromApi ''alice'' ''pve'',
      CreateApiToken ''alice'' ''pve'' ''hijeklmn-eopb-kidj-aklm-kimmhkhnkggg''
        ''Managed by Vault'' 300 False]
   = (Inl (Err ''error retrieving role: role is nil''), b',
      [NewConfigUserFromApi ''alice'' ''pve'',
       CreateApiToken ''alice'' ''pve'' ''hijeklmn-eopb-kidj-aklm-kimmhkhnkggg''
         ''Managed by Vault'' 300 False])"
proof -
  let ?secret = "\<lparr>InternalData =
                     [''token_id'' \<mapsto> VString ''hijeklmn-eopb-kidj-aklm-kimmhkhnkggg'',
                      ''role'' \<mapsto> VString ''alice''],
                   Secret_TTL = 300 * Second, Secret_MaxTTL = 0\<rparr>"
  let ?log = "[NewConfigUserFromApi ''alice'' ''pve'',
               CreateApiToken ''alice'' ''pve'' ''hijeklmn-eopb-kidj-aklm-kimmhkhnkggg''
                 ''Managed by Vault'' 300 False]"
  have "InternalData ?secret ''role'' = None
        \<or> (\<exists>role. InternalData ?secret ''role'' = Some (VString role)
              \<and> (\<forall>r. getRole test_Storage role \<noteq> Inr (Some r)))"
    by (simp add: getRole_alice_absent)
  from tokenRevoke_role_gone [OF this, of test_environment backend ?log]
  obtain msg b' where
    r: "tokenRevoke test_environment ?secret test_Storage backend ?log = (Inl (Err msg), b', ?log)"
    by blast
  from getClient_test_Storage have "fst (tokenRevoke test_environment ?secret test_Storage backend ?log)
               = Inl (Err ''error retrieving role: role is nil'')"
    by (simp add: tokenRevoke_def getRole_alice_absent)
  with r show ?thesis by simp
qed

section \<open>Issuing credentials\<close>

lemma createUserCreds_Inr:
  assumes "createUserCreds env role s b log = (Inr resp, b', log')"
  obtains token where
    "backend_createToken env role s b log = (Inr token, b', log')"
    "Data resp = [''token_id'' \<mapsto> VString (TokenID token),
                  ''token_id_full'' \<mapsto>
                     VString (RoleUser role @ ''@'' @ RoleRealm role @ ''!'' @ TokenID token),
                  ''secret'' \<mapsto> VString (TokenSecret token)]"
    "Secret resp =
       Some \<lparr>InternalData = [''token_id'' \<mapsto> VString (TokenID token),
                               ''role'' \<mapsto> VString (Name role)],
             Secret_TTL = (if 0 <s TTL role then TTL role else 0),
             Secret_MaxTTL = (if 0 <s MaxTTL role then MaxTTL role else 0)\<rparr>"
proof (cases "backend_createToken env role s b log")
  case (fields r b1 log1)
  show thesis
  proof (cases r)
    case (Inl err)
    with fields assms show thesis by (simp add: createUserCreds_def)
  next
    case (Inr token)
    with fields assms have "b1 = b'" "log1 = log'"
      by (simp_all add: createUserCreds_def Let_def)
    moreover from Inr fields assms have
      "resp = \<lparr>Data = [''token_id'' \<mapsto> VString (TokenID token),
                  ''token_id_full'' \<mapsto>
                     VString (RoleUser role @ ''@'' @ RoleRealm role @ ''!'' @ TokenID token),
                  ''secret'' \<mapsto> VString (TokenSecret token)],
               Secret = Some \<lparr>InternalData = [''token_id'' \<mapsto> VString (TokenID token),
                               ''role'' \<mapsto> VString (Name role)],
             Secret_TTL = (if 0 <s TTL role then TTL role else 0),
             Secret_MaxTTL = (if 0 <s MaxTTL role then MaxTTL role else 0)\<rparr>\<rparr>"
      by (auto simp: createUserCreds_def Let_def Secret_Response_def)
    ultimately show thesis using that [of token] fields Inr by simp
  qed
qed

lemma two_strings_ran:
  "x \<noteq> y \<Longrightarrow> x \<noteq> z \<Longrightarrow> VString x \<notin> ran [k \<mapsto> VString y, k' \<mapsto> VString z]"
  by (auto simp: ran_def split: if_splits)

text \<open>
  C6. The response of a successful \<open>createUserCreds\<close> carries, for the token that the
  backend's \<open>createToken\<close> returned, the identifier, the full identifier
  \<open>user@realm!identifier\<close> of the role's user and realm, and the secret; the internal
  data of its lease are the identifier and the name of the role, under no other key, and no
  entry of them is the secret unless the secret is the identifier or the name itself.
\<close>

theorem createUserCreds_payload:
  assumes "createUserCreds env role s b log = (Inr resp, b', log')"
  shows "\<exists>token sec.
           backend_createToken env role s b log = (Inr token, b', log')
         \<and> Data resp = [''token_id'' \<mapsto> VString (TokenID token),
                        ''token_id_full'' \<mapsto>
                           VString (RoleUser role @ ''@'' @ RoleRealm role @ ''!'' @ TokenID token),
                        ''secret'' \<mapsto> VString (TokenSecret token)]
         \<and> Secret resp = Some sec
         \<and> InternalData sec = [''token_id'' \<mapsto> VString (TokenID token),
                                ''role'' \<mapsto> VString (Name role)]
         \<and> InternalData sec ''secret'' = None
         \<and> (TokenSecret token \<noteq> TokenID token \<and> TokenSecret token \<noteq> Name role
              \<longrightarrow> VString (TokenSecret token) \<notin> ran (InternalData sec))"
proof -
  from assms obtain token where
    t: "backend_createToken env role s b log = (Inr token, b', log')"
    and d: "Data resp = [''token_id'' \<mapsto> VString (TokenID token),
                  ''token_id_full'' \<mapsto>
                     VString (RoleUser role @ ''@'' @ RoleRealm role @ ''!'' @ TokenID token),
                  ''secret'' \<mapsto> VString (TokenSecret token)]"
    and sec: "Secret resp =
       Some \<lparr>InternalData = [''token_id'' \<mapsto> VString (TokenID token),
                               ''role'' \<mapsto> VString (Name role)],
             Secret_TTL = (if 0 <s TTL role then TTL role else 0),
             Secret_MaxTTL = (if 0 <s MaxTTL role then MaxTTL role else 0)\<rparr>"
    by (rule createUserCreds_Inr)
  show ?thesis
    using t d sec by (simp add: two_strings_ran)
qed

theorem createUserCreds_payload_witness:
  "\<exists>resp b' log' sec.
      createUserCreds test_environment test_role test_Storage backend [] = (Inr resp, b', log')
    \<and> Data resp ''token_id'' = Some (VString ''hijeklmn-eopb-kidj-aklm-kimmhkhnkggg'')
    \<and> Data resp ''token_id_full''
        = Some (VString ''alice@pve!hijeklmn-eopb-kidj-aklm-kimmhkhnkggg'')
    \<and> Data resp ''secret'' = Some (VString ''0c1d2e3f-aaaa-4bbb-8ccc-1234567890ab'')
    \<and> Secret resp = Some sec
    \<and> InternalData sec = [''token_id'' \<mapsto> VString ''hijeklmn-eopb-kidj-aklm-kimmhkhnkggg'',
                           ''role'' \<mapsto> VString ''alice'']
    \<and> VString ''0c1d2e3f-aaaa-4bbb-8ccc-1234567890ab'' \<notin> ran (InternalData sec)"
proof -
  let ?token = "\<lparr>TokenID = ''hijeklmn-eopb-kidj-aklm-kimmhkhnkggg'',
                  TokenSecret = ''0c1d2e3f-aaaa-4bbb-8ccc-1234567890ab''\<rparr>"
  from backend_createToken_test obtain b' log' where
    bt: "backend_createToken test_environment test_role test_Storage backend []
       = (Inr ?token, b', log')" by blast
  then obtain resp where
    cu: "createUserCreds test_environment test_role test_Storage backend [] = (Inr resp, b', log')"
    by (simp add: createUserCreds_def Let_def)
  from createUserCreds_payload [OF cu] bt obtain sec where
    d: "Data resp = [''token_id'' \<mapsto> VString (TokenID ?token),
                        ''token_id_full'' \<mapsto>
                           VString (RoleUser test_role @ ''@'' @ RoleRealm test_role @ ''!''
                                    @ TokenID ?token),
                        ''secret'' \<mapsto> VString (TokenSecret ?token)]"
    and s: "Secret resp = Some sec"
    and i: "InternalData sec = [''token_id'' \<mapsto> VString (TokenID ?token),
                                ''role'' \<mapsto> VString (Name test_role)]"
    and n: "TokenSecret ?token \<noteq> TokenID ?token \<and> TokenSecret ?token \<noteq> Name test_role
              \<longrightarrow> VString (TokenSecret ?token) \<notin> ran (InternalData sec)"
    by auto
  from n have "VString ''0c1d2e3f-aaaa-4bbb-8ccc-1234567890ab'' \<notin> ran (InternalData sec)"
    by (simp add: test_role_def)
  moreover from i have "InternalData sec
       = [''token_id'' \<mapsto> VString ''hijeklmn-eopb-kidj-aklm-kimmhkhnkggg'',
          ''role'' \<mapsto> VString ''alice'']" by (simp add: test_role_def)
  moreover from d have "Data resp ''token_id'' = Some (VString ''hijeklmn-eopb-kidj-aklm-kimmhkhnkggg'')"
    "Data resp ''token_id_full'' = Some (VString ''alice@pve!hijeklmn-eopb-kidj-aklm-kimmhkhnkggg'')"
    "Data resp ''secret'' = Some (VString ''0c1d2e3f-aaaa-4bbb-8ccc-1234567890ab'')"
    by (simp_all add: test_role_def)
  ultimately show ?thesis using cu s by blast
qed

section \<open>Writes and deletes of the configuration\<close>

lemma getClient_miss:
  "client b = None \<Longrightarrow>
   fst (getClient env b s) =
     (case getConfig s of
        Inl err \<Rightarrow> Inl err
      | Inr config \<Rightarrow>
          newClient env (Some (case config of None \<Rightarrow> new_proxmoxConfig | Some c \<Rightarrow> c)))"
  by (simp add: getClient_def Let_def split: sum.splits)

text \<open>
  C7. A configuration write that returns no error leaves the cache empty and the profile it
  wrote in the storage, and the next \<open>getClient\<close> builds its handle from that profile; a
  configuration delete that returns no error leaves the cache empty and no profile, and the
  next \<open>getClient\<close> builds from the empty profile.
\<close>

theorem config_write_and_delete_empty_cache:
  "(pathConfigWrite op d s b = (Inr r, s', b') \<longrightarrow>
      client b' = None
      \<and> (\<exists>config. kv s' configStoragePath = Some (ConfigJSON config)
            \<and> fst (getClient env b' s') = newClient env (Some config)))
   \<and> (pathConfigDelete s b = (Inr r, s', b') \<longrightarrow>
      client b' = None
      \<and> kv s' configStoragePath = None
      \<and> fst (getClient env b' s') =
           (case getConfig s' of
              Inl err \<Rightarrow> Inl err
            | Inr config \<Rightarrow> newClient env (Some new_proxmoxConfig)))"
proof (intro conjI impI)
  assume w: "pathConfigWrite op d s b = (Inr r, s', b')"
  from pathConfigWrite_Inr [OF w] obtain config where
    b': "b' = reset b" and g: "get_err s = None"
    and s': "s' = s\<lparr>kv := (kv s)(configStoragePath \<mapsto> ConfigJSON config)\<rparr>" by blast
  from b' show "client b' = None" by (simp add: reset_def)
  then have "fst (getClient env b' s') = newClient env (Some config)"
    using g s' by (simp add: getClient_miss getConfig_def Storage_Get_def DecodeJSON_config_def)
  with s' show "\<exists>config. kv s' configStoragePath = Some (ConfigJSON config)
            \<and> fst (getClient env b' s') = newClient env (Some config)" by simp
next
  assume dl: "pathConfigDelete s b = (Inr r, s', b')"
  from pathConfigDelete_Inr [OF dl] have b': "b' = reset b"
    and s': "s' = s\<lparr>kv := (kv s)(configStoragePath := None)\<rparr>" by simp_all
  from b' show c: "client b' = None" by (simp add: reset_def)
  from s' show k: "kv s' configStoragePath = None" by simp
  from k have "getConfig s' = Inr None \<or> (\<exists>m. getConfig s' = Inl m)"
    by (simp add: getConfig_def Storage_Get_def split: option.splits)
  then show "fst (getClient env b' s') =
           (case getConfig s' of
              Inl err \<Rightarrow> Inl err
            | Inr config \<Rightarrow> newClient env (Some new_proxmoxConfig))"
    using c by (auto simp: getClient_miss)
qed

lemma pathConfigWrite_test:
  "pathConfigWrite UpdateOperation
     (no_FieldData\<lparr>fd_user := Some ''bob'', fd_token_id := Some ''some_changed_token_703468470''\<rparr>)
     test_Storage cached_backend
   = (Inr None,
      test_Storage\<lparr>kv := [''config'' \<mapsto>
         ConfigJSON (test_config\<lparr>User := ''bob'', ApiTokenID := ''some_changed_token_703468470''\<rparr>)]\<rparr>,
      backend)"
  by (simp add: pathConfigWrite_def getConfig_test_Storage no_FieldData_def Let_def
        Storage_Put_def test_Storage_fields configStoragePath_def reset_def cached_backend_def
        backend_def)

lemma pathConfigDelete_test:
  "pathConfigDelete test_Storage cached_backend = (Inr None, empty_Storage, backend)"
  by (simp add: pathConfigDelete_def Storage_Delete_def test_Storage_def configStoragePath_def
        reset_def cached_backend_def backend_def empty_Storage_def)

theorem config_write_and_delete_empty_cache_witness:
  "client cached_backend \<noteq> None
   \<and> (\<exists>s' b'. pathConfigWrite UpdateOperation
          (no_FieldData\<lparr>fd_user := Some ''bob'',
             fd_token_id := Some ''some_changed_token_703468470''\<rparr>)
          test_Storage cached_backend = (Inr None, s', b')
        \<and> client b' = None
        \<and> (\<exists>c. fst (getClient test_environment b' s') = Inr c
              \<and> client_APIToken_userID c = ''bob@pam!some_changed_token_703468470''))
   \<and> (\<exists>s' b'. pathConfigDelete test_Storage cached_backend = (Inr None, s', b')
        \<and> client b' = None
        \<and> fst (getClient test_environment b' s') = Inl ''client api token was not defined'')"
proof -
  let ?d = "no_FieldData\<lparr>fd_user := Some ''bob'',
             fd_token_id := Some ''some_changed_token_703468470''\<rparr>"
  let ?s1 = "test_Storage\<lparr>kv := [''config'' \<mapsto>
         ConfigJSON (test_config\<lparr>User := ''bob'', ApiTokenID := ''some_changed_token_703468470''\<rparr>)]\<rparr>"
  note w = pathConfigWrite_test
  note dl = pathConfigDelete_test
  from config_write_and_delete_empty_cache
    [of UpdateOperation ?d test_Storage cached_backend None ?s1 backend test_environment]
    w
  obtain config where c1: "client backend = None"
    and k: "kv ?s1 configStoragePath = Some (ConfigJSON config)"
    and g: "fst (getClient test_environment backend ?s1) = newClient test_environment (Some config)"
    by auto
  from k have "config = test_config\<lparr>User := ''bob'', ApiTokenID := ''some_changed_token_703468470''\<rparr>"
    by (simp add: configStoragePath_def)
  with g have "\<exists>c. fst (getClient test_environment backend ?s1) = Inr c
              \<and> client_APIToken_userID c = ''bob@pam!some_changed_token_703468470''"
    by (simp add: newClient_def test_config_def test_environment_def)
  moreover
  from config_write_and_delete_empty_cache
    [of UpdateOperation ?d test_Storage cached_backend None empty_Storage backend test_environment]
    dl
  have "fst (getClient test_environment backend empty_Storage) =
           (case getConfig empty_Storage of
              Inl err \<Rightarrow> Inl err
            | Inr config \<Rightarrow> newClient test_environment (Some new_proxmoxConfig))"
    by simp
  then have "fst (getClient test_environment backend empty_Storage)
      = Inl ''client api token was not defined''"
    by (simp add: getConfig_empty_Storage newClient_def new_proxmoxConfig_def)
  moreover have "client cached_backend \<noteq> None" by (simp add: cached_backend_def)
  ultimately show ?thesis using c1 w dl by blast
qed

section \<open>Updates without a record\<close>

text \<open>
  C9. An update of a role that has no record, on a storage that accepts the write, persists
  a fresh record under the name: its user and realm are those of the request, empty when the
  request has none, and its durations those of the request, zero when it has none (a request
  whose default exceeds a non-zero maximum is refused before). An update of the configuration
  when no profile is stored fails and leaves the state as it was.
\<close>

theorem role_update_without_record_persists:
  assumes "fd_name d = Some name"
    and "getRole s name = Inr None"
    and "put_err s = None"
    and ttl: "ttl = (case fd_ttl d of Some t \<Rightarrow> t * Second | None \<Rightarrow> 0)"
    and max: "max_ttl = (case fd_max_ttl d of Some t \<Rightarrow> t * Second | None \<Rightarrow> 0)"
    and ok: "\<not> (max_ttl \<noteq> 0 \<and> max_ttl <s ttl)"
  shows "pathRolesWrite UpdateOperation d s =
           (Inr None,
            s\<lparr>kv := (kv s)(''role/'' @ name \<mapsto>
               RoleJSON \<lparr>Name = name,
                         RoleUser = (case fd_user d of Some u \<Rightarrow> u | None \<Rightarrow> []),
                         RoleRealm = (case fd_realm d of Some r \<Rightarrow> r | None \<Rightarrow> []),
                         TTL = ttl, MaxTTL = max_ttl\<rparr>)\<rparr>)
         \<and> (getConfig s = Inr None \<longrightarrow>
              pathConfigWrite UpdateOperation d' s b
                = (Inl ''config not found during update operation'', s, b))"
  using assms
  by (auto simp: pathRolesWrite_def Let_def setRole_def Storage_Put_def pathConfigWrite_def
           split: option.splits)

theorem role_update_without_record_persists_witness:
  "pathRolesWrite UpdateOperation (no_FieldData\<lparr>fd_name := Some ''alice''\<rparr>) empty_Storage =
     (Inr None,
      empty_Storage\<lparr>kv := [''role/alice'' \<mapsto>
         RoleJSON \<lparr>Name = ''alice'', RoleUser = [], RoleRealm = [], TTL = 0, MaxTTL = 0\<rparr>]\<rparr>)
   \<and> pathConfigWrite UpdateOperation (no_FieldData\<lparr>fd_user := Some ''bob''\<rparr>) empty_Storage
        backend
      = (Inl ''config not found during update operation'', empty_Storage, backend)"
proof -
  let ?d = "no_FieldData\<lparr>fd_name := Some ''alice''\<rparr>"
  have 1: "fd_name ?d = Some ''alice''" by simp
  have 2: "getRole empty_Storage ''alice'' = Inr None"
    by (simp add: getRole_def Storage_Get_def empty_Storage_def)
  have 3: "put_err empty_Storage = None" by (simp add: empty_Storage_def)
  have 4: "(0::Duration) = (case fd_ttl ?d of Some t \<Rightarrow> t * Second | None \<Rightarrow> 0)"
    and 5: "(0::Duration) = (case fd_max_ttl ?d of Some t \<Rightarrow> t * Second | None \<Rightarrow> 0)"
    by (simp_all add: no_FieldData_def)
  have 6: "\<not> ((0::Duration) \<noteq> 0 \<and> (0::Duration) <s 0)" by simp
  from role_update_without_record_persists [OF 1 2 3 4 5 6,
      of "no_FieldData\<lparr>fd_user := Some ''bob''\<rparr>" backend]
    getConfig_empty_Storage
  show ?thesis by (simp add: no_FieldData_def empty_Storage_def)
qed

section \<open>The cache in the reachable states\<close>

lemma cache_from_profile_None: "client b = None \<Longrightarrow> cache_from_profile b s"
  by (simp add: cache_from_profile_def)

lemma cache_from_profile_kv:
  "cache_from_profile b s \<Longrightarrow> kv s' configStoragePath = kv s configStoragePath \<Longrightarrow>
   cache_from_profile b s'"
  by (cases "client b") (simp_all add: cache_from_profile_def)

lemma newClient_Inr:
  "newClient env (Some config) = Inr c \<Longrightarrow>
   ApiTokenID config \<noteq> []
   \<and> client_APIToken_userID c = User config @ ''@'' @ Realm config @ ''!'' @ ApiTokenID config"
  by (auto simp: newClient_def Let_def split: if_splits option.splits)

lemma getClient_cache:
  assumes inv: "cache_from_profile b s" and g: "getClient env b s = (res, b')"
  shows "cache_from_profile b' s"
proof (cases "client b")
  case (Some c)
  with g have "b' = b" by (simp add: getClient_def)
  with inv show ?thesis by simp
next
  case None
  show ?thesis
  proof (cases "client b'")
    case None
    then show ?thesis by (rule cache_from_profile_None)
  next
    case (Some c)
    with \<open>client b = None\<close> g obtain config where
      gc: "getConfig s = Inr config"
      and nc: "newClient env (Some (case config of None \<Rightarrow> new_proxmoxConfig | Some c \<Rightarrow> c))
                 = Inr c"
      by (auto simp: getClient_def Let_def split: sum.splits)
    from newClient_Inr [OF nc] obtain cfg where cfg: "config = Some cfg"
      "ApiTokenID cfg \<noteq> []"
      "client_APIToken_userID c = User cfg @ ''@'' @ Realm cfg @ ''!'' @ ApiTokenID cfg"
      by (cases config) (simp_all add: new_proxmoxConfig_def)
    from getConfig_Some gc cfg obtain entry where
      "kv s configStoragePath = Some entry" "DecodeJSON_config entry = Inr cfg" by blast
    with cfg Some show ?thesis by (simp add: cache_from_profile_def)
  qed
qed

text \<open>A returned handle is the cached one.\<close>

lemma getClient_Inr_cached: "getClient env b s = (Inr c, b') \<Longrightarrow> client b' = Some c"
  by (auto simp: getClient_def Let_def split: option.splits sum.splits)

lemma pathRolesWrite_shape:
  assumes same: "\<And>res. P (res, s)"
    and put: "\<And>name roleEntry.
                P (case setRole s name roleEntry of
                     (Some err, s') \<Rightarrow> (Inl err, s') | (None, s') \<Rightarrow> (Inr None, s'))"
  shows "P (pathRolesWrite op d s)"
proof (cases "op = CreateOperation")
  case True
  then show ?thesis
    by (simp add: pathRolesWrite_def Let_def same put split: option.splits sum.splits)
next
  case False
  then show ?thesis
    by (simp add: pathRolesWrite_def Let_def same put split: option.splits sum.splits)
qed

lemma pathRolesWrite_kv_config:
  assumes "pathRolesWrite op d s = (res, s')"
  shows "kv s' configStoragePath = kv s configStoragePath"
proof -
  let ?P = "\<lambda>x. \<forall>res s'. x = (res, s') \<longrightarrow> kv s' configStoragePath = kv s configStoragePath"
  have "?P (pathRolesWrite op d s)"
  proof (rule pathRolesWrite_shape)
    fix res show "?P (res, s)" by simp
  next
    fix name roleEntry
    show "?P (case setRole s name roleEntry of
                (Some err, s') \<Rightarrow> (Inl err, s') | (None, s') \<Rightarrow> (Inr None, s'))"
      by (auto simp: setRole_def Storage_Put_def configStoragePath_def split: option.splits)
  qed
  with assms show ?thesis by simp
qed

lemma pathRolesDelete_kv_config:
  assumes "pathRolesDelete d s = (res, s')"
  shows "kv s' configStoragePath = kv s configStoragePath"
  using assms
  by (auto simp: pathRolesDelete_def Storage_Delete_def configStoragePath_def
           split: option.splits)

lemma backend_createToken_cache:
  assumes "cache_from_profile b s" "backend_createToken env role s b log = (res, b', log')"
  shows "cache_from_profile b' s"
proof (cases "getClient env b s")
  case (Pair r b1)
  with assms(1) have inv: "cache_from_profile b1 s" by (rule getClient_cache)
  from Pair assms(2) have "b' = b1"
    by (auto simp: backend_createToken_def Let_def split: sum.splits prod.splits)
  with inv show ?thesis by simp
qed

lemma createUserCreds_cache:
  assumes "cache_from_profile b s" "createUserCreds env role s b log = (res, b', log')"
  shows "cache_from_profile b' s"
proof (cases "backend_createToken env role s b log")
  case (fields r b1 log1)
  with assms(1) have inv: "cache_from_profile b1 s" by (rule backend_createToken_cache)
  from fields assms(2) have "b' = b1"
    by (auto simp: createUserCreds_def Let_def split: sum.splits)
  with inv show ?thesis by simp
qed

lemma pathCredentialsRead_cache:
  assumes "cache_from_profile b s" "pathCredentialsRead env d s b log = (res, b', log')"
  shows "cache_from_profile b' s"
  using assms
  by (auto simp: pathCredentialsRead_def Let_def split: sum.splits option.splits
           dest: createUserCreds_cache)

lemma tokenRevoke_cache:
  assumes "cache_from_profile b s" "tokenRevoke env secret s b log = (res, b', log')"
  shows "cache_from_profile b' s"
proof (cases "getClient env b s")
  case (Pair r b1)
  with assms(1) have inv: "cache_from_profile b1 s" by (rule getClient_cache)
  from Pair assms(2) have "b' = b1"
    by (auto simp: tokenRevoke_def split: sum.splits prod.splits option.splits val.splits)
  with inv show ?thesis by simp
qed

lemma reachable_cache: "reachable st \<Longrightarrow> cache_from_profile (fst st) (snd st)"
proof (induction rule: reachable.induct)
  case (start s)
  then show ?case by (simp add: backend_def cache_from_profile_None)
next
  case (config_write b s op d res s' b')
  from pathConfigWrite_unchanged_or_reset [OF config_write.hyps(2)] config_write.IH
  show ?case by (auto simp: cache_from_profile_None)
next
  case (config_delete b s res s' b')
  from pathConfigDelete_unchanged_or_reset [OF config_delete.hyps(2)] config_delete.IH
  show ?case by (auto simp: cache_from_profile_None)
next
  case (roles_write b s op d res s')
  then show ?case by (auto dest: pathRolesWrite_kv_config intro: cache_from_profile_kv)
next
  case (roles_delete b s d res s')
  then show ?case by (auto dest: pathRolesDelete_kv_config intro: cache_from_profile_kv)
next
  case (credentials_read b s env d log r b' log')
  then show ?case by (auto dest: pathCredentialsRead_cache)
next
  case (revoke b s env secret log r' b' log')
  then show ?case by (auto dest: tokenRevoke_cache)
next
  case (invalidated b s key)
  then show ?case by (auto simp: invalidate_def reset_def cache_from_profile_None)
next
  case (storage_faults b s g p e)
  then show ?case by (auto intro: cache_from_profile_kv)
qed

text \<open>
  C8. In every state the handlers reach, with a storage that answers: when the stored
  profile, or the empty profile that stands for a missing one, has an empty token identifier,
  \<open>getClient\<close> fails with the error of \<open>newClient\<close> for an undefined token and caches
  nothing; when the identifier is not empty, a handle that \<open>getClient\<close> returns
  authenticates as \<open>user@realm!identifier\<close> of that profile.
\<close>

theorem getClient_token_identifier:
  assumes r: "reachable (b, s)"
    and g: "getConfig s = Inr stored"
    and c: "config = (case stored of None \<Rightarrow> new_proxmoxConfig | Some c \<Rightarrow> c)"
  shows "(ApiTokenID config = [] \<longrightarrow>
            getClient env b s = (Inl ''client api token was not defined'', b)
            \<and> client b = None)
         \<and> (ApiTokenID config \<noteq> [] \<longrightarrow>
              (\<forall>h b'. getClient env b s = (Inr h, b') \<longrightarrow>
                 client_APIToken_userID h
                   = User config @ ''@'' @ Realm config @ ''!'' @ ApiTokenID config))
         \<and> (stored = None \<longrightarrow> ApiTokenID config = [])"
proof (intro conjI impI allI)
  from reachable_cache [OF r] have inv: "cache_from_profile b s" by simp
  {
    assume e: "ApiTokenID config = []"
    show miss: "client b = None"
    proof (cases "client b")
      case (Some h)
      with inv g c e show ?thesis
        by (auto simp: cache_from_profile_def getConfig_def Storage_Get_def
                 split: option.splits sum.splits)
    qed simp
    with g c e show "getClient env b s = (Inl ''client api token was not defined'', b)"
      by (cases b) (simp add: getClient_def newClient_def Let_def)
  }
  {
    fix h b'
    assume ne: "ApiTokenID config \<noteq> []" and gc: "getClient env b s = (Inr h, b')"
    from inv gc have "cache_from_profile b' s" by (rule getClient_cache)
    moreover from gc have "client b' = Some h" by (rule getClient_Inr_cached)
    ultimately show "client_APIToken_userID h
                   = User config @ ''@'' @ Realm config @ ''!'' @ ApiTokenID config"
      using g c
      by (auto simp: cache_from_profile_def getConfig_def Storage_Get_def
               split: option.splits sum.splits)
  }
  {
    assume "stored = None"
    with c show "ApiTokenID config = []" by (simp add: new_proxmoxConfig_def)
  }
qed

theorem getClient_token_identifier_witness:
  "reachable (backend, empty_Storage) \<and> reachable (cached_backend, test_Storage)
   \<and> getClient test_environment backend empty_Storage
       = (Inl ''client api token was not defined'', backend)
   \<and> getClient test_environment cached_backend test_Storage = (Inr test_client, cached_backend)
   \<and> client_APIToken_userID test_client = ''root@pam!my_test_token''"
proof -
  have r1: "reachable (backend, empty_Storage)" and r0: "reachable (backend, test_Storage)"
    by (rule reachable.start)+
  have "tokenRevoke test_environment
          \<lparr>InternalData = Map.empty, Secret_TTL = 0, Secret_MaxTTL = 0\<rparr> test_Storage backend []
        = (Inl (Err ''secret is missing role internal data''), cached_backend, [])"
    by (simp add: tokenRevoke_def getClient_test_Storage)
  with r0 have r2: "reachable (cached_backend, test_Storage)" by (rule reachable.revoke)
  have c1: "new_proxmoxConfig = (case None of None \<Rightarrow> new_proxmoxConfig | Some c \<Rightarrow> c)"
    and c2: "test_config = (case Some test_config of None \<Rightarrow> new_proxmoxConfig | Some c \<Rightarrow> c)"
    by simp_all
  from getClient_token_identifier [OF r1 getConfig_empty_Storage c1, of test_environment]
  have a: "getClient test_environment backend empty_Storage
       = (Inl ''client api token was not defined'', backend)"
    by (simp add: new_proxmoxConfig_def)
  have h: "getClient test_environment cached_backend test_Storage
             = (Inr test_client, cached_backend)"
    by (simp add: getClient_def cached_backend_def)
  have "ApiTokenID test_config \<noteq> []" by (simp add: test_config_def)
  with getClient_token_identifier [OF r2 getConfig_test_Storage c2, of test_environment] h
  have "client_APIToken_userID test_client
          = User test_config @ ''@'' @ Realm test_config @ ''!'' @ ApiTokenID test_config"
    by blast
  then have "client_APIToken_userID test_client = ''root@pam!my_test_token''"
    by (simp add: test_config_def)
  with a h r1 r2 show ?thesis by blast
qed

end
